theory Spec2Isabelle
  imports Main "HOL-Library.Char_ord" "HOL-Library.List_Lexorder"
begin

section \<open>Python string primitives used by parse\_vcf.py\<close>

text \<open>
  Strings are lists of characters, and a character stands for the Unicode code point of
  the same number: the model covers the Python strings whose code points are below 256.
  The character classes defined further down (whitespace, digits, word characters,
  printable characters) are Python's on that range. \<open>str_split c s\<close> is Python's
  \<open>s.split(c)\<close> for a one-character separator: it never returns the empty list.
  \<open>str_split_max\<close> is \<open>s.split(c, n)\<close>, and \<open>str_join\<close> is \<open>str.join(sep, xs)\<close>.
\<close>

fun str_split :: "char \<Rightarrow> string \<Rightarrow> string list" where
  "str_split c [] = [[]]"
| "str_split c (x # xs) =
     (if x = c then [] # str_split c xs
      else (let r = str_split c xs in (x # hd r) # tl r))"

fun str_split_max :: "char \<Rightarrow> nat \<Rightarrow> string \<Rightarrow> string list" where
  "str_split_max c n [] = [[]]"
| "str_split_max c 0 (x # xs) = [x # xs]"
| "str_split_max c (Suc n) (x # xs) =
     (if x = c then [] # str_split_max c n xs
      else (let r = str_split_max c (Suc n) xs in (x # hd r) # tl r))"

fun str_join :: "string \<Rightarrow> string list \<Rightarrow> string" where
  "str_join sep [] = []"
| "str_join sep [x] = x"
| "str_join sep (x # y # ys) = x @ sep @ str_join sep (y # ys)"

section \<open>Allele minimization (VcfRecord.\_minimize\_alleles)\<close>

record AltAllele =
  CHROM :: string
  POS :: int
  REF :: string
  ALT :: string

text \<open>The first \<open>while\<close> loop: remove identical suffixes while both strings are longer than 1.\<close>

function strip_suffixes :: "string \<Rightarrow> string \<Rightarrow> string \<times> string" where
  "strip_suffixes ref alt =
     (if length ref > 1 \<and> length alt > 1
      then (if last ref = last alt then strip_suffixes (butlast ref) (butlast alt)
            else (ref, alt))
      else (ref, alt))"
  by pat_completeness auto
termination
  by (relation "measure (\<lambda>(ref, alt). length ref)") auto

text \<open>The second loop: remove identical prefixes, adding one to the position for each.\<close>

function strip_prefixes :: "int \<Rightarrow> string \<Rightarrow> string \<Rightarrow> int \<times> string \<times> string" where
  "strip_prefixes pos ref alt =
     (if length ref > 1 \<and> length alt > 1
      then (if hd ref = hd alt then strip_prefixes (pos + 1) (tl ref) (tl alt)
            else (pos, ref, alt))
      else (pos, ref, alt))"
  by pat_completeness auto
termination
  by (relation "measure (\<lambda>(pos, ref, alt). length ref)") auto

declare strip_suffixes.simps [simp del]
declare strip_prefixes.simps [simp del]

text \<open>The body of the \<open>for alt in self.ALLELES[1:]\<close> loop for one ALT allele.\<close>

definition minimize_allele :: "string \<Rightarrow> int \<Rightarrow> string \<Rightarrow> string \<Rightarrow> AltAllele" where
  "minimize_allele chrom pos ref alt =
     (case strip_suffixes ref alt of (ref1, alt1) \<Rightarrow>
        (case strip_prefixes pos ref1 alt1 of (pos2, ref2, alt2) \<Rightarrow>
           \<lparr>CHROM = chrom, POS = pos2, REF = ref2, ALT = alt2\<rparr>))"

text \<open>
  \<open>ALLELES\<close> is \<open>[REF] + ALT.split(',')\<close>; \<open>_minimize_alleles\<close> pairs \<open>ALLELES[0]\<close>
  with every later allele, in order.
\<close>

definition ALLELES_of :: "string \<Rightarrow> string \<Rightarrow> string list" where
  "ALLELES_of ref alt = ref # str_split CHR '','' alt"

definition minimize_alleles :: "string \<Rightarrow> int \<Rightarrow> string list \<Rightarrow> AltAllele list" where
  "minimize_alleles chrom pos alleles =
     map (minimize_allele chrom pos (hd alleles)) (tl alleles)"

text \<open>A pair is minimal when neither loop can make a step.\<close>

definition can_strip_suffix :: "string \<Rightarrow> string \<Rightarrow> bool" where
  "can_strip_suffix ref alt \<longleftrightarrow> length ref > 1 \<and> length alt > 1 \<and> last ref = last alt"

definition can_strip_prefix :: "string \<Rightarrow> string \<Rightarrow> bool" where
  "can_strip_prefix ref alt \<longleftrightarrow> length ref > 1 \<and> length alt > 1 \<and> hd ref = hd alt"

definition is_minimal :: "string \<Rightarrow> string \<Rightarrow> bool" where
  "is_minimal ref alt \<longleftrightarrow> \<not> can_strip_suffix ref alt \<and> \<not> can_strip_prefix ref alt"

section \<open>Python values, errors and dictionaries\<close>

text \<open>
  The exceptions the modelled code can raise. \<open>ParseError\<close> and \<open>HeaderError\<close> are the
  two exception classes of the module; the others are Python's built-in ones.
\<close>

datatype py_error = ParseError | HeaderError | ValueError | KeyError | IndexError
  | TypeError | AttributeError | NameError

text \<open>
  A \<open>dict\<close> (and an \<open>OrderedDict\<close>) keeps its keys in insertion order, and assigning to
  an existing key keeps the key's position: an association list with distinct keys.
\<close>

type_synonym ('k, 'v) dict = "('k \<times> 'v) list"

fun dict_set :: "'k \<Rightarrow> 'v \<Rightarrow> ('k, 'v) dict \<Rightarrow> ('k, 'v) dict" where
  "dict_set k v [] = [(k, v)]"
| "dict_set k v (p # ps) = (if fst p = k then (k, v) # ps else p # dict_set k v ps)"

definition dict_get :: "('k, 'v) dict \<Rightarrow> 'k \<Rightarrow> 'v option" where
  "dict_get d k = map_of d k"

definition dict_has :: "('k, 'v) dict \<Rightarrow> 'k \<Rightarrow> bool" where
  "dict_has d k \<longleftrightarrow> map_of d k \<noteq> None"

definition dict_pop :: "'k \<Rightarrow> ('k, 'v) dict \<Rightarrow> ('k, 'v) dict" where
  "dict_pop k d = filter (\<lambda>p. fst p \<noteq> k) d"

text \<open>\<open>dict(pairs)\<close> and \<open>d.update(pairs)\<close>: the pairs are assigned from left to right.\<close>

definition dict_update :: "('k, 'v) dict \<Rightarrow> ('k \<times> 'v) list \<Rightarrow> ('k, 'v) dict" where
  "dict_update d ps = foldl (\<lambda>acc (k, v). dict_set k v acc) d ps"

definition dict_of :: "('k \<times> 'v) list \<Rightarrow> ('k, 'v) dict" where
  "dict_of ps = dict_update [] ps"

text \<open>\<open>xs[i]\<close> for a non-negative index.\<close>

definition list_get :: "'a list \<Rightarrow> nat \<Rightarrow> py_error + 'a" where
  "list_get xs i = (if i < length xs then Inr (xs ! i) else Inl IndexError)"

text \<open>
  \<open>int(s)\<close> for a string, base 10. Whitespace around the number is dropped: the
  characters 9 to 13 and the space, and the two other whitespace characters below 256
  (0x85 and 0xA0), but not the separators 0x1C to 0x1F, which \<open>int\<close> rejects. One sign is
  allowed, the digits are the decimal digits 0 to 9 and may be grouped by single
  underscores. A number of more than 4300 digits is rejected (the default of
  \<open>sys.set_int_max_str_digits\<close>). Every rejection is a ValueError.
\<close>

definition is_int_space :: "char \<Rightarrow> bool" where
  "is_int_space c \<longleftrightarrow>
     (let n = (of_char c :: nat) in (9 \<le> n \<and> n \<le> 13) \<or> n = 32 \<or> n = 133 \<or> n = 160)"

definition is_digit :: "char \<Rightarrow> bool" where
  "is_digit c \<longleftrightarrow> (let n = (of_char c :: nat) in 48 \<le> n \<and> n \<le> 57)"

definition digit_val :: "char \<Rightarrow> nat" where
  "digit_val c = of_char c - 48"

definition str_strip :: "string \<Rightarrow> string" where
  "str_strip s = rev (dropWhile is_int_space (rev (dropWhile is_int_space s)))"

definition digits_value :: "string \<Rightarrow> nat" where
  "digits_value ds = foldl (\<lambda>a c. 10 * a + digit_val c) 0 ds"

definition int_max_str_digits :: nat where
  "int_max_str_digits = 4300"

definition py_int_digits :: "string \<Rightarrow> nat option" where
  "py_int_digits body =
     (let groups = str_split CHR ''_'' body
      in if list_all (\<lambda>g. g \<noteq> [] \<and> list_all is_digit g) groups
            \<and> length (concat groups) \<le> int_max_str_digits
         then Some (digits_value (concat groups)) else None)"

definition py_int :: "string \<Rightarrow> py_error + int" where
  "py_int s =
     (let t = str_strip s;
          (neg, body) = (case t of [] \<Rightarrow> (False, [])
                         | c # r \<Rightarrow> if c = CHR ''-'' then (True, r)
                                    else if c = CHR ''+'' then (False, r) else (False, t))
      in case py_int_digits body of
           None \<Rightarrow> Inl ValueError
         | Some n \<Rightarrow> Inr (if neg then - int n else int n))"

text \<open>
  The whitespace of the regular expressions (\<open>\s\<close>, and \<open>\S\<close> for its complement): the
  characters above and the separators 0x1C to 0x1F.
\<close>

definition is_re_space :: "char \<Rightarrow> bool" where
  "is_re_space c \<longleftrightarrow>
     (let n = (of_char c :: nat)
      in (9 \<le> n \<and> n \<le> 13) \<or> (28 \<le> n \<and> n \<le> 32) \<or> n = 133 \<or> n = 160)"

section \<open>The header and the record\<close>

text \<open>
  A value of the record's INFO dictionary: \<open>True\<close> for a flag read from the line, the raw
  string of a \<open>key=value\<close> token, or whatever \<open>add_info_fields\<close> was given (a string, a
  boolean or a list of strings).
\<close>

datatype info_value = VBool bool | VStr string | VList "string list"

text \<open>
  An entry of \<open>VcfHeader.metadata\<close>: for structured lines a dictionary from the declared
  ID to the list of its property dictionaries, for simple \<open>key=value\<close> lines the list of
  the values.
\<close>

datatype meta_entry =
    Structured "(string, (string, string) dict list) dict"
  | Simple "string list"

text \<open>The class a field's values are converted with; a Flag has none.\<close>

datatype py_class = Class_str | Class_float | Class_int

type_synonym field_translation = "py_class option \<times> bool"

record VcfHeader =
  meta_header :: "string list"
  col_header :: "string list"
  samples :: "string list option"
  sample_cols :: "(string, nat) dict option"
  metadata :: "(string, meta_entry) dict"
  fileformat :: string
  info_field_translater :: "(string, field_translation) dict"
  format_field_translater :: "(string, field_translation) dict"

text \<open>
  A record holds the four attributes that \<open>AltAllele\<close> has too (CHROM, POS, REF, ALT),
  its raw columns \<open>cols\<close>, the other columns, and one cell per memoized property
  (\<open>None\<close> until the property is first read). QUAL is kept as the raw token: the code
  stores \<open>float(qual)\<close> when that parses, and nothing modelled here reads it. The header
  a record refers to is passed to the functions that read it. The caches of the typed
  accessors (\<open>_parsed_info\<close>, \<open>_parsed_gts\<close>) and of \<open>CSQ\<close> are left out.
\<close>

record VcfRecord = AltAllele +
  cols :: "string list"
  ID :: string
  QUAL :: string
  FILTER :: string
  INFO :: string
  FORMAT :: "string option"
  GT_FORMAT :: "string list option"
  SPAN_cell :: "int option"
  INFO_FIELDS_cell :: "(string, info_value) dict option"
  CALLS_cell :: "(string, string) dict option"
  ALLELES_cell :: "string list option"
  DECOMPOSED_ALLELES_cell :: "AltAllele list option"
  SAMPLE_GTS :: "(string, (string, string) dict) dict"
  got_gts :: bool
  vep_allele :: "(string, nat) dict"

text \<open>
  \<open>VcfRecord.__init__\<close>: the line is split at the first 9 tabs only; fewer than 8
  columns is a ParseError, a POS that \<open>int\<close> rejects is a ValueError.
\<close>

definition VcfRecord_init :: "string \<Rightarrow> py_error + VcfRecord" where
  "VcfRecord_init line =
     (let cs = str_split_max CHR 0x09 9 line
      in if length cs < 8 then Inl ParseError
         else (case py_int (cs ! 1) of
                 Inl e \<Rightarrow> Inl e
               | Inr p \<Rightarrow>
                   Inr \<lparr>CHROM = cs ! 0, POS = p, REF = cs ! 3, ALT = cs ! 4,
                        cols = cs, ID = cs ! 2, QUAL = cs ! 5, FILTER = cs ! 6, INFO = cs ! 7,
                        FORMAT = (if length cs > 8 then Some (cs ! 8) else None),
                        GT_FORMAT = (if length cs > 8 then Some (str_split CHR '':'' (cs ! 8))
                                     else None),
                        SPAN_cell = None, INFO_FIELDS_cell = None,
                        CALLS_cell = None, ALLELES_cell = None,
                        DECOMPOSED_ALLELES_cell = None,
                        SAMPLE_GTS = [], got_gts = False, vep_allele = []\<rparr>))"

text \<open>\<open>VcfRecord.__str__\<close>.\<close>

definition VcfRecord_str :: "VcfRecord \<Rightarrow> string" where
  "VcfRecord_str r = str_join [CHR 0x09] (cols r)"

text \<open>The properties \<open>ALLELES\<close> and \<open>DECOMPOSED_ALLELES\<close>: the value and the record after the access.\<close>

definition ALLELES :: "VcfRecord \<Rightarrow> string list \<times> VcfRecord" where
  "ALLELES r =
     (case ALLELES_cell r of
        Some a \<Rightarrow> (a, r)
      | None \<Rightarrow> (let a = ALLELES_of (REF r) (ALT r) in (a, r\<lparr>ALLELES_cell := Some a\<rparr>)))"

definition DECOMPOSED_ALLELES :: "VcfRecord \<Rightarrow> AltAllele list \<times> VcfRecord" where
  "DECOMPOSED_ALLELES r =
     (case DECOMPOSED_ALLELES_cell r of
        Some d \<Rightarrow> (d, r)
      | None \<Rightarrow>
          (case ALLELES r of (a, r1) \<Rightarrow>
             (let d = minimize_alleles (CHROM r1) (POS r1) a
              in (d, r1\<lparr>DECOMPOSED_ALLELES_cell := Some d\<rparr>))))"

text \<open>
  The property \<open>INFO_FIELDS\<close>: each \<open>;\<close>-separated token is split at its first \<open>=\<close>; a
  token without \<open>=\<close> is a flag with value \<open>True\<close>.
\<close>

definition parse_info_token :: "string \<Rightarrow> string \<times> info_value" where
  "parse_info_token i =
     (case str_split_max CHR ''='' 1 i of
        [f, v] \<Rightarrow> (f, VStr v)
      | _ \<Rightarrow> (i, VBool True))"

definition parse_info :: "string \<Rightarrow> (string, info_value) dict" where
  "parse_info info = dict_of (map parse_info_token (str_split CHR '';'' info))"

definition INFO_FIELDS :: "VcfRecord \<Rightarrow> (string, info_value) dict \<times> VcfRecord" where
  "INFO_FIELDS r =
     (case INFO_FIELDS_cell r of
        Some d \<Rightarrow> (d, r)
      | None \<Rightarrow> (let d = parse_info (INFO r) in (d, r\<lparr>INFO_FIELDS_cell := Some d\<rparr>)))"

text \<open>
  \<open>[(s, self.cols[self.header.sample_cols[s]]) for s in self.header.samples]\<close>, stopping
  at the first failing lookup.
\<close>

fun lookup_calls :: "(string, nat) dict \<Rightarrow> string list \<Rightarrow> string list
    \<Rightarrow> py_error + (string \<times> string) list" where
  "lookup_calls sc cs [] = Inr []"
| "lookup_calls sc cs (s # ss) =
     (case dict_get sc s of
        None \<Rightarrow> Inl KeyError
      | Some i \<Rightarrow>
          (case list_get cs i of
             Inl e \<Rightarrow> Inl e
           | Inr v \<Rightarrow>
               (case lookup_calls sc cs ss of
                  Inl e \<Rightarrow> Inl e
                | Inr ps \<Rightarrow> Inr ((s, v) # ps))))"

text \<open>
  The \<open>CALLS\<close> property. On first access with samples in the header it pops the last
  raw column, splits it at the tabs and appends the pieces to \<open>cols\<close>, then builds the
  sample-to-call dictionary. The record is returned as the access leaves it, also when
  the access raises.
\<close>

definition CALLS :: "VcfHeader \<Rightarrow> VcfRecord \<Rightarrow> (py_error + (string, string) dict) \<times> VcfRecord" where
  "CALLS h r =
     (case CALLS_cell r of
        Some c \<Rightarrow> (Inr c, r)
      | None \<Rightarrow>
          (case sample_cols h of
             None \<Rightarrow> (Inr [], r\<lparr>CALLS_cell := Some []\<rparr>)
           | Some sc \<Rightarrow>
               if sc = [] then (Inr [], r\<lparr>CALLS_cell := Some []\<rparr>)
               else if cols r = [] then (Inl IndexError, r)
               else
                 (let r1 = r\<lparr>cols := butlast (cols r) @ str_split CHR 0x09 (last (cols r))\<rparr>
                  in case samples h of
                       None \<Rightarrow> (Inl TypeError, r1)
                     | Some ss \<Rightarrow>
                         (case lookup_calls sc (cols r1) ss of
                            Inl e \<Rightarrow> (Inl e, r1)
                          | Inr ps \<Rightarrow> (Inr (dict_of ps), r1\<lparr>CALLS_cell := Some (dict_of ps)\<rparr>)))))"

section \<open>INFO mutation (add\_info\_fields) and SPAN\<close>

text \<open>
  \<open>str(v)\<close> and \<open>repr\<close> for the values above. \<open>repr\<close> of a string quotes it (with
  double quotes when it holds a single quote and no double quote) and escapes the
  backslash, the quote and the characters that are not printable (below 32, from 127 to
  160, and 173); \<open>str\<close> of a list is the bracketed, comma-separated list of the
  \<open>repr\<close>s of its elements.
\<close>

definition hex_digit :: "nat \<Rightarrow> char" where
  "hex_digit n = (if n < 10 then char_of (48 + n) else char_of (87 + n))"

definition repr_char :: "char \<Rightarrow> char \<Rightarrow> string" where
  "repr_char q c =
     (let n = (of_char c :: nat)
      in if c = q \<or> c = CHR 0x5C then [CHR 0x5C, c]
         else if n = 9 then [CHR 0x5C, CHR ''t'']
         else if n = 10 then [CHR 0x5C, CHR ''n'']
         else if n = 13 then [CHR 0x5C, CHR ''r'']
         else if n < 32 \<or> (127 \<le> n \<and> n \<le> 160) \<or> n = 173
           then [CHR 0x5C, CHR ''x'', hex_digit (n div 16), hex_digit (n mod 16)]
         else [c])"

definition py_repr_str :: "string \<Rightarrow> string" where
  "py_repr_str s =
     (let q = (if CHR 0x27 \<in> set s \<and> CHR 0x22 \<notin> set s then CHR 0x22 else CHR 0x27)
      in [q] @ concat (map (repr_char q) s) @ [q])"

fun py_str :: "info_value \<Rightarrow> string" where
  "py_str (VStr s) = s"
| "py_str (VBool b) = (if b then ''True'' else ''False'')"
| "py_str (VList xs) = ''['' @ str_join '', '' (map py_repr_str xs) @ '']''"

text \<open>
  \<open>old += sep + values\<close> on an INFO value. \<open>sep + values\<close> needs \<open>values\<close> to be a
  string; adding a string to a boolean is a TypeError; adding it to a list appends its
  characters one by one.
\<close>

definition iadd_info :: "info_value \<Rightarrow> string \<Rightarrow> info_value \<Rightarrow> py_error + info_value" where
  "iadd_info old sep vals =
     (case vals of
        VStr v \<Rightarrow>
          (case old of
             VStr s \<Rightarrow> Inr (VStr (s @ sep @ v))
           | VList xs \<Rightarrow> Inr (VList (xs @ map (\<lambda>c. [c]) (sep @ v)))
           | VBool b \<Rightarrow> Inl TypeError)
      | _ \<Rightarrow> Inl TypeError)"

text \<open>The fall-through of \<open>_append_to_existing_info\<close>: pair the old and the new values up.\<close>

definition zip_append_info :: "info_value \<Rightarrow> info_value \<Rightarrow> py_error + info_value" where
  "zip_append_info old vals =
     (case old of
        VStr s \<Rightarrow>
          (let old_l = str_split CHR '','' s;
               new_l = str_split CHR '','' (py_str vals)
           in if length old_l \<noteq> length new_l then Inl ParseError
              else Inr (VStr (str_join '','' (map (\<lambda>(x, y). x @ ''|'' @ y) (zip old_l new_l)))))
      | _ \<Rightarrow> Inl AttributeError)"

text \<open>
  \<open>_append_to_existing_info(field, values)\<close>, called only for a field that is in
  \<open>INFO_FIELDS\<close> (given here as \<open>d\<close>); it returns the new dictionary.
\<close>

definition append_to_existing_info :: "VcfHeader \<Rightarrow> string \<Rightarrow> info_value
    \<Rightarrow> (string, info_value) dict \<Rightarrow> py_error + (string, info_value) dict" where
  "append_to_existing_info h field vals d =
     (case dict_get d field of
        None \<Rightarrow> Inl KeyError
      | Some old \<Rightarrow>
          (let fall = (case zip_append_info old vals of
                         Inl e \<Rightarrow> Inl e | Inr v \<Rightarrow> Inr (dict_set field v d))
           in case dict_get (metadata h) ''INFO'' of
                None \<Rightarrow> Inl KeyError
              | Some (Simple xs) \<Rightarrow> if field \<in> set xs then Inl TypeError else fall
              | Some (Structured m) \<Rightarrow>
                  (case dict_get m field of
                     None \<Rightarrow> fall
                   | Some decls \<Rightarrow>
                       if decls = [] then Inl IndexError
                       else (case dict_get (last decls) ''Type'' of
                               None \<Rightarrow> Inl KeyError
                             | Some ty \<Rightarrow>
                                 if ty = ''Flag'' then Inr (dict_set field (VBool True) d)
                                 else (case dict_get (last decls) ''Number'' of
                                         None \<Rightarrow> Inl KeyError
                                       | Some num \<Rightarrow>
                                           if num = ''.'' then
                                             (case iadd_info old '','' vals of
                                                Inl e \<Rightarrow> Inl e
                                              | Inr v \<Rightarrow> Inr (dict_set field v d))
                                           else if num = ''1'' then
                                             (case iadd_info old ''|'' vals of
                                                Inl e \<Rightarrow> Inl e
                                              | Inr v \<Rightarrow> Inr (dict_set field v d))
                                           else fall)))))"

text \<open>
  \<open>_rewrite_info_string\<close>. The test for a flag is an \<open>if\<close> of its own, followed by an
  \<open>if\<close>/\<open>else\<close> on the list test: a boolean value therefore contributes the bare key and
  then, through the \<open>else\<close>, \<open>key=True\<close> as well.
\<close>

definition render_info_item :: "string \<times> info_value \<Rightarrow> string list" where
  "render_info_item p =
     (case p of (f, v) \<Rightarrow>
        (case v of VBool b \<Rightarrow> [f] | _ \<Rightarrow> [])
        @ (case v of
             VList xs \<Rightarrow> [f @ ''='' @ str_join '','' xs]
           | _ \<Rightarrow> [f @ ''='' @ py_str v]))"

definition rewrite_info_string :: "VcfRecord \<Rightarrow> py_error option \<times> VcfRecord" where
  "rewrite_info_string r =
     (case INFO_FIELDS r of (d, r1) \<Rightarrow>
        (let info = str_join '';'' (concat (map render_info_item d));
             r2 = r1\<lparr>INFO := info\<rparr>
         in if 7 < length (cols r2)
            then (None, r2\<lparr>cols := (cols r2)[7 := info]\<rparr>)
            else (Some IndexError, r2)))"

text \<open>
  The loop of \<open>add_info_fields\<close> over the items in sorted key order. It works on the
  record's INFO dictionary; when a step raises, the dictionary keeps the assignments
  made before it.
\<close>

fun add_info_loop :: "VcfHeader \<Rightarrow> bool \<Rightarrow> (string \<times> info_value) list
    \<Rightarrow> (string, info_value) dict \<Rightarrow> py_error option \<times> (string, info_value) dict" where
  "add_info_loop h app [] d = (None, d)"
| "add_info_loop h app ((k, v) # kvs) d =
     (if app \<and> dict_has d k
      then (case append_to_existing_info h k v d of
              Inl e \<Rightarrow> (Some e, d)
            | Inr d1 \<Rightarrow> add_info_loop h app kvs d1)
      else add_info_loop h app kvs (dict_set k v d))"

text \<open>
  \<open>add_info_fields(info, append_existing)\<close>: the error if it raises, and the record as
  the call leaves it. \<open>info\<close> is a dictionary, so its keys are distinct and sorting its
  items sorts them by key.
\<close>

definition add_info_fields :: "VcfHeader \<Rightarrow> (string, info_value) dict \<Rightarrow> bool \<Rightarrow> VcfRecord
    \<Rightarrow> py_error option \<times> VcfRecord" where
  "add_info_fields h info app r =
     (case INFO_FIELDS r of (d, r1) \<Rightarrow>
        (case add_info_loop h app (sort_key fst info) d of
           (Some e, d1) \<Rightarrow> (Some e, r1\<lparr>INFO_FIELDS_cell := Some d1\<rparr>)
         | (None, d1) \<Rightarrow> rewrite_info_string (r1\<lparr>INFO_FIELDS_cell := Some d1\<rparr>)))"

text \<open>
  \<open>int(v)\<close> for an INFO value, and the property \<open>SPAN\<close>: the END field when INFO has one,
  else POS + len(REF) - 1, computed on the first read and kept.
\<close>

definition py_int_value :: "info_value \<Rightarrow> py_error + int" where
  "py_int_value v =
     (case v of
        VStr s \<Rightarrow> py_int s
      | VBool b \<Rightarrow> Inr (if b then 1 else 0)
      | VList xs \<Rightarrow> Inl TypeError)"

definition SPAN :: "VcfRecord \<Rightarrow> (py_error + int) \<times> VcfRecord" where
  "SPAN r =
     (case SPAN_cell r of
        Some n \<Rightarrow> (Inr n, r)
      | None \<Rightarrow>
          (case INFO_FIELDS r of (d, r1) \<Rightarrow>
             (case dict_get d ''END'' of
                Some v \<Rightarrow>
                  (case py_int_value v of
                     Inl e \<Rightarrow> (Inl e, r1)
                   | Inr n \<Rightarrow> (Inr n, r1\<lparr>SPAN_cell := Some n\<rparr>))
              | None \<Rightarrow>
                  (let n = POS r1 + int (length (REF r1)) - 1
                   in (Inr n, r1\<lparr>SPAN_cell := Some n\<rparr>)))))"

section \<open>Per-sample calls and the phasing comparator\<close>

text \<open>
  \<open>get_sample_call(sample)\<close>: the cached dictionary of the sample when there is one;
  otherwise the sample's raw call, split at \<open>:\<close> and zipped with the FORMAT field names.
\<close>

definition get_sample_call :: "VcfHeader \<Rightarrow> string \<Rightarrow> VcfRecord
    \<Rightarrow> (py_error + (string, string) dict) \<times> VcfRecord" where
  "get_sample_call h sample r =
     (case dict_get (SAMPLE_GTS r) sample of
        Some d \<Rightarrow> (Inr d, r)
      | None \<Rightarrow>
          (case CALLS h r of
             (Inl e, r1) \<Rightarrow> (Inl e, r1)
           | (Inr calls, r1) \<Rightarrow>
               (case dict_get calls sample of
                  None \<Rightarrow> (Inl ParseError, r1)
                | Some call \<Rightarrow>
                    (case GT_FORMAT r1 of
                       None \<Rightarrow> (Inl TypeError, r1)
                     | Some fmt \<Rightarrow>
                         (let d = dict_of (zip fmt (str_split CHR '':'' call));
                              r2 = r1\<lparr>SAMPLE_GTS := dict_set sample d (SAMPLE_GTS r1)\<rparr>
                          in case samples h of
                               None \<Rightarrow> (Inl TypeError, r2)
                             | Some ss \<Rightarrow>
                                 (Inr d, if length (SAMPLE_GTS r2) = length ss
                                         then r2\<lparr>got_gts := True\<rparr> else r2))))))"

fun sample_calls_loop :: "VcfHeader \<Rightarrow> string list \<Rightarrow> VcfRecord
    \<Rightarrow> (py_error + (string \<times> (string, string) dict) list) \<times> VcfRecord" where
  "sample_calls_loop h [] r = (Inr [], r)"
| "sample_calls_loop h (s # ss) r =
     (case get_sample_call h s r of
        (Inl e, r1) \<Rightarrow> (Inl e, r1)
      | (Inr d, r1) \<Rightarrow>
          (case sample_calls_loop h ss r1 of
             (Inl e, r2) \<Rightarrow> (Inl e, r2)
           | (Inr ps, r2) \<Rightarrow> (Inr ((s, d) # ps), r2)))"

text \<open>\<open>sample_calls()\<close>. The flag \<open>_got_gts\<close> is set before the samples are decoded.\<close>

definition sample_calls :: "VcfHeader \<Rightarrow> VcfRecord
    \<Rightarrow> (py_error + (string, (string, string) dict) dict) \<times> VcfRecord" where
  "sample_calls h r =
     (if got_gts r then (Inr (SAMPLE_GTS r), r)
      else
        (let r1 = r\<lparr>got_gts := True\<rparr>
         in case samples h of
              None \<Rightarrow> (Inl TypeError, r1)
            | Some ss \<Rightarrow>
                (case sample_calls_loop h ss r1 of
                   (Inl e, r2) \<Rightarrow> (Inl e, r2)
                 | (Inr ps, r2) \<Rightarrow> (Inr (dict_of ps), r2))))"

text \<open>
  \<open>str(n)\<close> for an integer, a ValueError when \<open>n\<close> has more than 4300 digits, and
  \<open>xs.index(x)\<close> (\<open>None\<close> for the ValueError).
\<close>

function nat_digits :: "nat \<Rightarrow> string" where
  "nat_digits n =
     (if n < 10 then [char_of (48 + n)]
      else nat_digits (n div 10) @ [char_of (48 + n mod 10)])"
  by pat_completeness auto
termination
  by (relation "measure id") auto

declare nat_digits.simps [simp del]

definition py_str_int :: "int \<Rightarrow> py_error + string" where
  "py_str_int i =
     (let ds = nat_digits (nat \<bar>i\<bar>)
      in if length ds > int_max_str_digits then Inl ValueError
         else Inr (if i < 0 then CHR ''-'' # ds else ds))"

fun list_index :: "'a list \<Rightarrow> 'a \<Rightarrow> nat option" where
  "list_index [] x = None"
| "list_index (y # ys) x = (if y = x then Some 0 else map_option Suc (list_index ys x))"

text \<open>
  \<open>self.sample_calls()[sample][field]\<close> inside the \<open>try\<close> of \<open>in_cis_with\<close>: \<open>None\<close>
  stands for a KeyError, which the \<open>except\<close> clause turns into \<open>False\<close>, whether a
  subscript raised it or \<open>sample_calls()\<close> did; any other exception passes through.
\<close>

definition sample_field :: "VcfHeader \<Rightarrow> string \<Rightarrow> string \<Rightarrow> VcfRecord
    \<Rightarrow> (py_error + string option) \<times> VcfRecord" where
  "sample_field h sample field r =
     (case sample_calls h r of
        (Inl e, r1) \<Rightarrow> (if e = KeyError then Inr None else Inl e, r1)
      | (Inr sc, r1) \<Rightarrow>
          (case dict_get sc sample of
             None \<Rightarrow> (Inr None, r1)
           | Some d \<Rightarrow> (Inr (dict_get d field), r1)))"

text \<open>
  \<open>in_cis_with(self, sample, allele, other, other_allele)\<close> for two distinct record
  objects of one header. The result only: the caches the call fills are not returned.
  \<open>'PID' not in self.GT_FORMAT\<close> is a TypeError when \<open>GT_FORMAT\<close> is \<open>None\<close>, that is, for
  a record without a FORMAT column. The last \<open>try\<close> turns every ValueError into \<open>False\<close>,
  the one of \<open>index\<close> and the one of \<open>str\<close>.
\<close>

definition in_cis_with :: "VcfHeader \<Rightarrow> VcfRecord \<Rightarrow> string \<Rightarrow> int \<Rightarrow> VcfRecord \<Rightarrow> int
    \<Rightarrow> py_error + bool" where
  "in_cis_with h self sample allele other other_allele =
     (case GT_FORMAT self of
        None \<Rightarrow> Inl TypeError
      | Some f1 \<Rightarrow>
          if ''PID'' \<notin> set f1 then Inr False
          else
            (case GT_FORMAT other of
               None \<Rightarrow> Inl TypeError
             | Some f2 \<Rightarrow>
                 if ''PID'' \<notin> set f2 then Inr False
                 else if ''PGT'' \<notin> set f1 then Inr False
                 else if ''PGT'' \<notin> set f2 then Inr False
                 else
                   (case sample_field h sample ''PID'' self of
                      (Inl e, s1) \<Rightarrow> Inl e
                    | (Inr None, s1) \<Rightarrow> Inr False
                    | (Inr (Some pid1), s1) \<Rightarrow>
                   (case sample_field h sample ''PID'' other of
                      (Inl e, o1) \<Rightarrow> Inl e
                    | (Inr None, o1) \<Rightarrow> Inr False
                    | (Inr (Some pid2), o1) \<Rightarrow>
                   (case sample_field h sample ''PGT'' s1 of
                      (Inl e, s2) \<Rightarrow> Inl e
                    | (Inr None, s2) \<Rightarrow> Inr False
                    | (Inr (Some pgt1), s2) \<Rightarrow>
                   (case sample_field h sample ''PGT'' o1 of
                      (Inl e, o2) \<Rightarrow> Inl e
                    | (Inr None, o2) \<Rightarrow> Inr False
                    | (Inr (Some pgt2), o2) \<Rightarrow>
                        if pid1 \<noteq> pid2 then Inr False
                        else if pgt1 = ''.'' \<or> pgt2 = ''.'' then Inr False
                        else
                          (case py_str_int allele of
                             Inl e \<Rightarrow> Inr False
                           | Inr a1 \<Rightarrow>
                          (case list_index (str_split CHR ''|'' pgt1) a1 of
                             None \<Rightarrow> Inr False
                           | Some phase1 \<Rightarrow>
                          (case py_str_int other_allele of
                             Inl e \<Rightarrow> Inr False
                           | Inr a2 \<Rightarrow>
                          (case list_index (str_split CHR ''|'' pgt2) a2 of
                             None \<Rightarrow> Inr False
                           | Some phase2 \<Rightarrow> Inr (phase1 = phase2)))))))))))"

section \<open>Parsed genotypes (the GT branch of \_get\_parsed\_gt\_fields)\<close>

text \<open>\<open>re.split\<close> on a one-character class: a cut at every character of the class.\<close>

fun split_on :: "(char \<Rightarrow> bool) \<Rightarrow> string \<Rightarrow> string list" where
  "split_on P [] = [[]]"
| "split_on P (x # xs) =
     (if P x then [] # split_on P xs
      else (let r = split_on P xs in (x # hd r) # tl r))"

definition gt_splitter :: "string \<Rightarrow> string list" where
  "gt_splitter val = split_on (\<lambda>c. c = CHR ''/'' \<or> c = CHR ''|'') val"

text \<open>\<open>tuple(int(x) for x in alleles)\<close>: the first token \<open>int\<close> rejects raises.\<close>

fun ints_of :: "string list \<Rightarrow> py_error + int list" where
  "ints_of [] = Inr []"
| "ints_of (x # xs) =
     (case py_int x of
        Inl e \<Rightarrow> Inl e
      | Inr n \<Rightarrow> (case ints_of xs of Inl e \<Rightarrow> Inl e | Inr ns \<Rightarrow> Inr (n # ns)))"

text \<open>
  One iteration of the loop for \<open>field == 'GT'\<close>. A value is a string, or \<open>None\<close> when the
  sample has no such field. When a token is not an integer, the result is one \<open>None\<close> per
  token equal to \<open>.\<close>; when there is no such token the code executes
  \<open>raise ParseErrror(...)\<close>, a name that is not defined, so Python raises a NameError.
\<close>

definition parse_gt :: "string option \<Rightarrow> py_error + int option list" where
  "parse_gt val =
     (case val of
        None \<Rightarrow> Inl TypeError
      | Some v \<Rightarrow>
          (let alleles = gt_splitter v
           in case ints_of alleles of
                Inr ns \<Rightarrow> Inr (map Some ns)
              | Inl e \<Rightarrow>
                  (let nocall = map (\<lambda>x. None) (filter (\<lambda>x. x = ''.'') alleles)
                   in if nocall = [] then Inl NameError else Inr nocall)))"

text \<open>
  \<open>_get_parsed_gt_fields('GT', values)\<close>. The lookup of the field's class before the
  loop cannot fail for GT, which the built-in table COMMON\_FORMAT has.
\<close>

fun get_parsed_gt_fields_GT :: "string option list \<Rightarrow> py_error + int option list list" where
  "get_parsed_gt_fields_GT [] = Inr []"
| "get_parsed_gt_fields_GT (val # vals) =
     (case parse_gt val of
        Inl e \<Rightarrow> Inl e
      | Inr t \<Rightarrow>
          (case get_parsed_gt_fields_GT vals of
             Inl e \<Rightarrow> Inl e
           | Inr ts \<Rightarrow> Inr (t # ts)))"

section \<open>Header construction and the type registry\<close>

text \<open>
  \<open>s.isdigit()\<close>: a non-empty string of digit characters. Below 256 these are the
  decimal digits 0 to 9 and the superscripts two, three and one (0xB2, 0xB3, 0xB9),
  which are digits for \<open>isdigit\<close> but not decimal digits, so that \<open>int\<close> rejects them.
\<close>

definition is_superscript_digit :: "char \<Rightarrow> bool" where
  "is_superscript_digit c \<longleftrightarrow>
     (let n = (of_char c :: nat) in n = 178 \<or> n = 179 \<or> n = 185)"

definition str_isdigit :: "string \<Rightarrow> bool" where
  "str_isdigit s \<longleftrightarrow> s \<noteq> [] \<and> list_all (\<lambda>c. is_digit c \<or> is_superscript_digit c) s"

text \<open>The \<open>if\<close>/\<open>elif\<close> chain on \<open>f['Type']\<close>; an unknown type is a ParseError.\<close>

definition class_of_type :: "string \<Rightarrow> py_error + py_class option" where
  "class_of_type ty =
     (if ty = ''String'' \<or> ty = ''Character'' then Inr (Some Class_str)
      else if ty = ''Float'' then Inr (Some Class_float)
      else if ty = ''Integer'' then Inr (Some Class_int)
      else if ty \<noteq> ''Flag'' then Inl ParseError
      else Inr None)"

text \<open>
  The computation of \<open>split\<close> from \<open>f['Number']\<close>: when \<open>isdigit\<close> accepts it, whether
  \<open>int\<close> of it exceeds 1, or the ValueError of \<open>int\<close>; for anything else, \<open>True\<close>. The
  declared type plays no part in it.
\<close>

definition split_of_number :: "string \<Rightarrow> py_error + bool" where
  "split_of_number num =
     (if str_isdigit num
      then (case py_int num of Inl e \<Rightarrow> Inl e | Inr n \<Rightarrow> Inr (n > 1))
      else Inr True)"

text \<open>
  \<open>_set_field_translation(field_type, field)\<close>: reads the first declaration of the field
  and stores (class, split) in the registry of the field type.
\<close>

definition set_field_translation :: "VcfHeader \<Rightarrow> string \<Rightarrow> string \<Rightarrow> py_error + VcfHeader" where
  "set_field_translation h field_type field =
     (case dict_get (metadata h) field_type of
        None \<Rightarrow> Inl KeyError
      | Some (Simple xs) \<Rightarrow> Inl TypeError
      | Some (Structured m) \<Rightarrow>
          (case dict_get m field of
             None \<Rightarrow> Inl KeyError
           | Some [] \<Rightarrow> Inl IndexError
           | Some (f # fs) \<Rightarrow>
               (case dict_get f ''Type'' of
                  None \<Rightarrow> Inl KeyError
                | Some ty \<Rightarrow>
                    (case class_of_type ty of
                       Inl e \<Rightarrow> Inl e
                     | Inr ctype \<Rightarrow>
                         (case dict_get f ''Number'' of
                            None \<Rightarrow> Inl KeyError
                          | Some num \<Rightarrow>
                              (case split_of_number num of
                                 Inl e \<Rightarrow> Inl e
                               | Inr split \<Rightarrow>
                                   if field_type = ''INFO'' then
                                     Inr (h\<lparr>info_field_translater :=
                                            dict_set field (ctype, split) (info_field_translater h)\<rparr>)
                                   else if field_type = ''FORMAT'' then
                                     Inr (h\<lparr>format_field_translater :=
                                            dict_set field (ctype, split) (format_field_translater h)\<rparr>)
                                   else Inl ParseError))))))"

text \<open>
  The claim's wording of when a field is multi-valued, to be compared with the code:
  multi-valued unless Number is exactly \<open>1\<close> or the field is a Flag.
\<close>

definition spec_multi_valued :: "string \<Rightarrow> string \<Rightarrow> bool" where
  "spec_multi_valued ty num \<longleftrightarrow> \<not> (num = ''1'' \<or> ty = ''Flag'')"

text \<open>
  \<open>_meta_re.match(line)\<close> for the pattern \<open>##(\S+?)=(.*)\<close>: after \<open>##\<close>, the shortest
  non-empty run of non-whitespace characters that is followed by \<open>=\<close>, and then the rest
  of the line up to a newline. The result is the pair of the two groups.
\<close>

definition meta_re_match :: "string \<Rightarrow> (string \<times> string) option" where
  "meta_re_match line =
     (case line of
        a # b # c # rest \<Rightarrow>
          if a = CHR ''#'' \<and> b = CHR ''#'' \<and> \<not> is_re_space c then
            (let k = takeWhile (\<lambda>x. x \<noteq> CHR ''='' \<and> \<not> is_re_space x) rest;
                 after = drop (length k) rest
             in case after of
                  e # v \<Rightarrow> if e = CHR ''='' then Some (c # k, takeWhile (\<lambda>x. x \<noteq> CHR 0x0A) v)
                           else None
                | [] \<Rightarrow> None)
          else None
      | _ \<Rightarrow> None)"

text \<open>The check of the eight fixed column names, in order.\<close>

fun check_cols :: "string list \<Rightarrow> nat \<Rightarrow> string list \<Rightarrow> py_error option" where
  "check_cols ch i [] = None"
| "check_cols ch i (c # cs) =
     (case list_get ch i of
        Inl e \<Rightarrow> Some e
      | Inr x \<Rightarrow> if x \<noteq> c then Some HeaderError else check_cols ch (Suc i) cs)"

definition required_cols :: "string list" where
  "required_cols = [''#CHROM'', ''POS'', ''ID'', ''REF'', ''ALT'', ''QUAL'', ''FILTER'', ''INFO'']"

text \<open>
  The loop \<open>for field in self.metadata[field_type]\<close> of \<open>_parse_metadata\<close>, inside its
  \<open>try\<close>: a KeyError ends the loop for this field type and is dropped.
\<close>

fun set_translations :: "VcfHeader \<Rightarrow> string \<Rightarrow> string list \<Rightarrow> py_error + VcfHeader" where
  "set_translations h field_type [] = Inr h"
| "set_translations h field_type (field # others) =
     (case set_field_translation h field_type field of
        Inl e \<Rightarrow> if e = KeyError then Inr h else Inl e
      | Inr h1 \<Rightarrow> set_translations h1 field_type others)"

definition fields_of :: "VcfHeader \<Rightarrow> string \<Rightarrow> string list" where
  "fields_of h field_type =
     (case dict_get (metadata h) field_type of
        None \<Rightarrow> []
      | Some (Simple xs) \<Rightarrow> xs
      | Some (Structured m) \<Rightarrow> map fst m)"

text \<open>
  \<open>_parse_metadata\<close>. The first metaheader line must match \<open>_meta_re\<close> with the key
  \<open>fileformat\<close>, else a ParseError is raised. What follows that check, the loop calling
  \<open>_parse_header_line\<close> on every line to fill \<open>metadata\<close>, is the parameter
  \<open>parse_header_lines\<close>; the registry is then filled for FORMAT and for INFO.
\<close>

definition parse_metadata :: "(string list \<Rightarrow> py_error + (string, meta_entry) dict)
    \<Rightarrow> VcfHeader \<Rightarrow> py_error + VcfHeader" where
  "parse_metadata parse_header_lines h =
     (case list_get (meta_header h) 0 of
        Inl e \<Rightarrow> Inl e
      | Inr first \<Rightarrow>
          (case meta_re_match first of
             None \<Rightarrow> Inl ParseError
           | Some (key, val) \<Rightarrow>
               if key \<noteq> ''fileformat'' then Inl ParseError
               else
                 (case parse_header_lines (meta_header h) of
                    Inl e \<Rightarrow> Inl e
                  | Inr md \<Rightarrow>
                      (let h1 = h\<lparr>fileformat := val, metadata := md\<rparr>
                       in case set_translations h1 ''FORMAT'' (fields_of h1 ''FORMAT'') of
                            Inl e \<Rightarrow> Inl e
                          | Inr h2 \<Rightarrow> set_translations h2 ''INFO'' (fields_of h2 ''INFO'')))))"

text \<open>
  \<open>VcfHeader.__init__(meta_header, col_header)\<close>: the samples, the column checks (each a
  HeaderError), then \<open>_parse_metadata\<close>.
\<close>

definition VcfHeader_init :: "(string list \<Rightarrow> py_error + (string, meta_entry) dict)
    \<Rightarrow> string list \<Rightarrow> string list \<Rightarrow> py_error + VcfHeader" where
  "VcfHeader_init parse_header_lines mh ch =
     (let ss = drop 9 ch;
          sc = dict_of (zip ss [9 ..< length ch]);
          h = \<lparr>meta_header = mh, col_header = ch,
               samples = (if ss = [] then None else Some ss),
               sample_cols = (if sc = [] then None else Some sc),
               metadata = [], fileformat = [],
               info_field_translater = [], format_field_translater = []\<rparr>
      in case check_cols ch 0 required_cols of
           Some e \<Rightarrow> Inl e
         | None \<Rightarrow>
             if length ch > 8 \<and> ch ! 8 \<noteq> ''FORMAT'' then Inl HeaderError
             else parse_metadata parse_header_lines h)"

text \<open>A header is well formed for its first line when that line declares the file format.\<close>

definition declares_fileformat :: "string \<Rightarrow> bool" where
  "declares_fileformat line \<longleftrightarrow>
     (case meta_re_match line of None \<Rightarrow> False | Some (key, val) \<Rightarrow> key = ''fileformat'')"

section \<open>Resolving a VEP annotation to an ALT allele (\_vep\_to\_alt)\<close>

text \<open>
  The two patterns for structural alleles. A word character (\<open>\w\<close>) is a letter, a
  digit or the underscore; a \<open>\d\<close> is a decimal digit. \<open>_svalt_re\<close> is
  \<open><(\w+)(:\w+)*>\<close>, matched at the start of the allele; \<open>_bnd_re\<close> is
  \<open>^(([ACTGN]*)[\[\]]\w+):\d+[\]\[]([ACGTN]*)$\<close>. Every repetition in them is followed by
  a character outside its own class, so the greedy match is the only one. Each matcher
  returns group 1.
\<close>

definition is_word_char :: "char \<Rightarrow> bool" where
  "is_word_char c \<longleftrightarrow>
     (let n = (of_char c :: nat)
      in (48 \<le> n \<and> n \<le> 57) \<or> (65 \<le> n \<and> n \<le> 90) \<or> (97 \<le> n \<and> n \<le> 122) \<or> n = 95
         \<or> n = 170 \<or> n = 178 \<or> n = 179 \<or> n = 181 \<or> n = 185 \<or> n = 186
         \<or> (188 \<le> n \<and> n \<le> 190) \<or> (192 \<le> n \<and> n \<le> 214)
         \<or> (216 \<le> n \<and> n \<le> 246) \<or> 248 \<le> n)"

definition is_base :: "char \<Rightarrow> bool" where
  "is_base c \<longleftrightarrow> c \<in> set ''ACTGN''"

definition is_bracket :: "char \<Rightarrow> bool" where
  "is_bracket c \<longleftrightarrow> c = CHR ''['' \<or> c = CHR '']''"

function sv_tail :: "string \<Rightarrow> bool" where
  "sv_tail [] = False"
| "sv_tail (c # r) =
     (if c = CHR ''>'' then True
      else if c = CHR '':''
        then takeWhile is_word_char r \<noteq> [] \<and> sv_tail (dropWhile is_word_char r)
      else False)"
  by pat_completeness auto
termination
  by (relation "measure length") (auto simp: less_Suc_eq_le length_dropWhile_le)

definition svalt_match :: "string \<Rightarrow> string option" where
  "svalt_match alt =
     (case alt of
        [] \<Rightarrow> None
      | c # rest \<Rightarrow>
          (let w = takeWhile is_word_char rest
           in if c = CHR ''<'' \<and> w \<noteq> [] \<and> sv_tail (dropWhile is_word_char rest)
              then Some w else None))"

definition bnd_match :: "string \<Rightarrow> string option" where
  "bnd_match alt =
     (let a = takeWhile is_base alt; r1 = dropWhile is_base alt
      in case r1 of
           [] \<Rightarrow> None
         | b # r2 \<Rightarrow>
             (let w = takeWhile is_word_char r2; r3 = dropWhile is_word_char r2
              in case r3 of
                   [] \<Rightarrow> None
                 | colon # r4 \<Rightarrow>
                     (let d = takeWhile is_digit r4; r5 = dropWhile is_digit r4
                      in case r5 of
                           [] \<Rightarrow> None
                         | b2 # r6 \<Rightarrow>
                             (let r7 = dropWhile is_base r6
                              in if is_bracket b \<and> w \<noteq> [] \<and> colon = CHR '':'' \<and> d \<noteq> []
                                    \<and> is_bracket b2 \<and> (r7 = [] \<or> r7 = [CHR 0x0A])
                                 then Some (a @ [b] @ w) else None))))"

record vep_flags =
  is_sv :: bool
  is_snv :: bool
  is_indel :: bool
  is_mnv :: bool
  asterisk :: bool

text \<open>The cache key a structural allele is recorded under.\<close>

definition sv_key :: "string \<Rightarrow> string \<Rightarrow> string" where
  "sv_key allele group1 =
     (let sv_type = (if allele = ''-'' then ''-'' else group1)
      in if sv_type = ''DUP'' then ''duplication''
         else if sv_type = ''INS'' then ''insertion''
         else if sv_type = ''DEL'' then ''deletion''
         else sv_type)"

text \<open>
  The loop \<open>for i in range(1, len(self.ALLELES))\<close>, over the pairs of an index and its
  ALT allele. It ends either with the flags (\<open>Inr\<close>) or, through one of the three
  \<open>return i\<close> statements, with the index (\<open>Inl\<close>); the cache is returned with both.
\<close>

fun vep_classify :: "string \<Rightarrow> string \<Rightarrow> (nat \<times> string) list \<Rightarrow> vep_flags
    \<Rightarrow> (string, nat) dict \<Rightarrow> (nat + vep_flags) \<times> (string, nat) dict" where
  "vep_classify allele ref [] fl c = (Inr fl, c)"
| "vep_classify allele ref ((i, alt) # rest) fl c =
     (if alt = ''*'' then
        vep_classify allele ref rest (fl\<lparr>asterisk := True\<rparr>) (dict_set alt i c)
      else
        (case (case svalt_match alt of Some g \<Rightarrow> Some g | None \<Rightarrow> bnd_match alt) of
           Some g \<Rightarrow>
             vep_classify allele ref rest (fl\<lparr>is_sv := True\<rparr>) (dict_set (sv_key allele g) i c)
         | None \<Rightarrow>
             (let fl1 = (if length alt = 1 \<and> length ref = 1
                         then (if alt \<noteq> ref then fl\<lparr>is_snv := True\<rparr> else fl)
                         else if length alt = length ref then fl\<lparr>is_mnv := True\<rparr>
                         else fl\<lparr>is_indel := True\<rparr>)
              in if is_indel fl1 \<and>
                    ((allele = ''deletion'' \<and> length alt < length ref)
                     \<or> (allele = ''insertion'' \<and> length alt > length ref)
                     \<or> (allele = ''duplication'' \<and> length alt > length ref))
                 then (Inl i, dict_set allele i c)
                 else vep_classify allele ref rest fl1 (dict_set alt i c))))"

text \<open>
  The rebuilding of the cache: every key other than \<open>*\<close> loses its first character, a
  one-character key becomes \<open>-\<close>; the old keys are removed and the new ones added.
\<close>

definition trim_key :: "string \<Rightarrow> string" where
  "trim_key alt = (if length alt > 1 then tl alt else ''-'')"

definition trim_cache :: "(string, nat) dict \<Rightarrow> (string, nat) dict" where
  "trim_cache c =
     (let nonstar = filter (\<lambda>p. fst p \<noteq> ''*'') c;
          trimmed = dict_of (map (\<lambda>p. (trim_key (fst p), snd p)) nonstar);
          popped = foldl (\<lambda>d k. dict_pop k d) c (map fst nonstar)
      in dict_update popped trimmed)"

definition first_base_differs :: "string list \<Rightarrow> bool" where
  "first_base_differs alleles =
     list_ex (\<lambda>alt. alt \<noteq> ''*'' \<and> take 1 alt \<noteq> take 1 (hd alleles)) (tl alleles)"

text \<open>The part of \<open>_vep_to_alt\<close> after the loop.\<close>

definition vep_finish :: "string \<Rightarrow> string list \<Rightarrow> vep_flags \<Rightarrow> (string, nat) dict
    \<Rightarrow> (py_error + nat) \<times> (string, nat) dict" where
  "vep_finish allele alleles fl c =
     (if is_sv fl \<and> (is_snv fl \<or> is_mnv fl \<or> is_indel fl) then (Inl ParseError, c)
      else
        (let c1 = (if \<not> is_sv fl \<and> \<not> is_snv fl \<and> (is_indel fl \<or> (is_mnv fl \<and> asterisk fl))
                      \<and> \<not> first_base_differs alleles
                   then trim_cache c else c)
         in case dict_get c1 allele of
              None \<Rightarrow> (Inl KeyError, c1)
            | Some i \<Rightarrow> (Inr i, c1)))"

definition no_flags :: vep_flags where
  "no_flags = \<lparr>is_sv = False, is_snv = False, is_indel = False, is_mnv = False, asterisk = False\<rparr>"

text \<open>\<open>_vep_to_alt(csq)\<close>: the index, or the error, and the record with its allele cache.\<close>

definition vep_to_alt :: "(string, string) dict \<Rightarrow> VcfRecord \<Rightarrow> (py_error + nat) \<times> VcfRecord" where
  "vep_to_alt csq r =
     (case dict_get csq ''Allele'' of
        None \<Rightarrow> (Inl KeyError, r)
      | Some allele \<Rightarrow>
          (case dict_get (vep_allele r) allele of
             Some i \<Rightarrow> (Inr i, r)
           | None \<Rightarrow>
               (case ALLELES r of (a, r1) \<Rightarrow>
                  (case vep_classify allele (hd a) (zip [1 ..< length a] (tl a)) no_flags
                          (vep_allele r1) of
                     (Inl i, c) \<Rightarrow> (Inr i, r1\<lparr>vep_allele := c\<rparr>)
                   | (Inr fl, c) \<Rightarrow>
                       (case vep_finish allele a fl c of
                          (res, c1) \<Rightarrow> (res, r1\<lparr>vep_allele := c1\<rparr>))))))"

text \<open>
  The choice of \<open>alt_index\<close> for one annotation \<open>d\<close> in the property \<open>CSQ\<close>: 1 when the
  record has a single ALT allele, the ALLELE\_NUM field when the annotation has one,
  else \<open>_vep_to_alt\<close>.
\<close>

definition csq_alt_index :: "(string, string) dict \<Rightarrow> VcfRecord \<Rightarrow> (py_error + int) \<times> VcfRecord" where
  "csq_alt_index d r =
     (case ALLELES r of (a, r1) \<Rightarrow>
        if length a = 2 then (Inr 1, r1)
        else (case dict_get d ''ALLELE_NUM'' of
                Some n \<Rightarrow> (py_int n, r1)
              | None \<Rightarrow>
                  (case vep_to_alt d r1 of
                     (Inl e, r2) \<Rightarrow> (Inl e, r2)
                   | (Inr i, r2) \<Rightarrow> (Inr (int i), r2))))"

text \<open>
  The marker of a missing value: the string the code compares with in \<open>add_ids\<close>
  (\<open>self.ID == '.'\<close>), in the typed conversions (\<open>x == '.'\<close>) and in \<open>in_cis_with\<close>
  (\<open>pgt1 == '.'\<close>).
\<close>

definition missing_value_marker :: string where
  "missing_value_marker = ''.''"

section \<open>Reading a record without mutating it\<close>

text \<open>
  The lazy accessors of a record, that is, everything modelled above except the mutation
  method \<open>add_info_fields\<close>; \<open>access\<close> gives the record as a call leaves it, whether the
  call returns or raises.
\<close>

datatype accessor =
    Get_ALLELES
  | Get_DECOMPOSED_ALLELES
  | Get_INFO_FIELDS
  | Get_SPAN
  | Get_CALLS
  | Call_sample_calls
  | Call_get_sample_call string
  | Call_vep_to_alt "(string, string) dict"

fun access :: "VcfHeader \<Rightarrow> VcfRecord \<Rightarrow> accessor \<Rightarrow> VcfRecord" where
  "access h r Get_ALLELES = snd (ALLELES r)"
| "access h r Get_DECOMPOSED_ALLELES = snd (DECOMPOSED_ALLELES r)"
| "access h r Get_INFO_FIELDS = snd (INFO_FIELDS r)"
| "access h r Get_SPAN = snd (SPAN r)"
| "access h r Get_CALLS = snd (CALLS h r)"
| "access h r Call_sample_calls = snd (sample_calls h r)"
| "access h r (Call_get_sample_call s) = snd (get_sample_call h s r)"
| "access h r (Call_vep_to_alt csq) = snd (vep_to_alt csq r)"

text \<open>
  Headers for the examples: the header that \<open>VcfHeader.__init__\<close> builds for the column
  names \<open>ch\<close> when the metaheader lines yield the metadata \<open>md\<close>, before the registry is
  filled.
\<close>

definition header_of :: "string list \<Rightarrow> (string, meta_entry) dict \<Rightarrow> VcfHeader" where
  "header_of ch md =
     \<lparr>meta_header = [], col_header = ch,
      samples = (if drop 9 ch = [] then None else Some (drop 9 ch)),
      sample_cols = (if drop 9 ch = [] then None
                     else Some (dict_of (zip (drop 9 ch) [9 ..< length ch]))),
      metadata = md, fileformat = ''VCFv4.2'',
      info_field_translater = [], format_field_translater = []\<rparr>"

definition registry :: "VcfHeader \<Rightarrow> string \<Rightarrow> (string, field_translation) dict" where
  "registry h field_type =
     (if field_type = ''INFO'' then info_field_translater h else format_field_translater h)"

section \<open>Splitting and joining\<close>

lemma str_split_nonempty [simp]: "str_split c s \<noteq> []"
  by (induction s) (auto simp: Let_def)

lemma str_split_max_nonempty [simp]: "str_split_max c n s \<noteq> []"
  by (induction c n s rule: str_split_max.induct) (auto simp: Let_def)

lemma str_join_Cons: "xs \<noteq> [] \<Longrightarrow> str_join sep (x # xs) = x @ sep @ str_join sep xs"
  by (cases xs) auto

lemma str_join_push: "str_join sep ((x # w) # ws) = x # str_join sep (w # ws)"
  by (cases ws) auto

lemma str_join_hd_tl: "r \<noteq> [] \<Longrightarrow> str_join sep ((x # hd r) # tl r) = x # str_join sep r"
  by (cases r) (auto simp: str_join_push)

lemma str_join_split: "str_join [c] (str_split c s) = s"
  by (induction s) (auto simp: Let_def str_join_Cons str_join_hd_tl)

lemma str_join_split_max: "str_join [c] (str_split_max c n s) = s"
  by (induction c n s rule: str_split_max.induct)
    (auto simp: Let_def str_join_Cons str_join_hd_tl)

lemma str_join_append:
  "xs \<noteq> [] \<Longrightarrow> ys \<noteq> [] \<Longrightarrow>
     str_join sep (xs @ ys) = str_join sep xs @ sep @ str_join sep ys"
  by (induction sep xs rule: str_join.induct) (auto simp: str_join_Cons)

text \<open>Splitting the last column again at the separator does not change the joined line.\<close>

lemma str_join_resplit_last:
  assumes ne: "cs \<noteq> []"
  shows "str_join [c] (butlast cs @ str_split c (last cs)) = str_join [c] cs"
proof (cases "butlast cs = []")
  case True
  with ne have "cs = [last cs]" by (metis append_butlast_last_id append_Nil)
  then have "str_join [c] cs = last cs" by (metis str_join.simps(2))
  then show ?thesis using True by (simp add: str_join_split)
next
  case False
  have "str_join [c] (butlast cs @ str_split c (last cs))
        = str_join [c] (butlast cs) @ [c] @ last cs"
    using False by (simp add: str_join_append str_join_split)
  also have "\<dots> = str_join [c] (butlast cs @ [last cs])"
    using False by (simp add: str_join_append)
  finally show ?thesis using ne by simp
qed

lemma str_split_no_sep: "c \<notin> set s \<Longrightarrow> str_split c s = [s]"
  by (induction s) (auto simp: Let_def)

lemma dict_get_set [simp]: "dict_get (dict_set k v d) k = Some v"
  by (induction d) (auto simp: dict_get_def)

section \<open>Properties of allele minimization\<close>

lemma strip_suffixes_stuck:
  "\<not> can_strip_suffix ref alt \<Longrightarrow> strip_suffixes ref alt = (ref, alt)"
  by (subst strip_suffixes.simps) (auto simp: can_strip_suffix_def)

lemma strip_prefixes_stuck:
  "\<not> can_strip_prefix ref alt \<Longrightarrow> strip_prefixes pos ref alt = (pos, ref, alt)"
  by (subst strip_prefixes.simps) (auto simp: can_strip_prefix_def)

lemma strip_suffixes_result:
  "strip_suffixes ref alt = (r, a) \<Longrightarrow> \<not> can_strip_suffix r a"
proof (induction ref alt rule: strip_suffixes.induct)
  case (1 ref alt)
  show ?case
  proof (cases "can_strip_suffix ref alt")
    case True
    then have "strip_suffixes ref alt = strip_suffixes (butlast ref) (butlast alt)"
      by (subst strip_suffixes.simps) (simp add: can_strip_suffix_def)
    with 1 True show ?thesis by (simp add: can_strip_suffix_def)
  next
    case False
    with 1 show ?thesis by (simp add: strip_suffixes_stuck)
  qed
qed

lemma strip_prefixes_result:
  "strip_prefixes pos ref alt = (p, r, a) \<Longrightarrow> \<not> can_strip_prefix r a"
proof (induction pos ref alt rule: strip_prefixes.induct)
  case (1 pos ref alt)
  show ?case
  proof (cases "can_strip_prefix ref alt")
    case True
    then have "strip_prefixes pos ref alt = strip_prefixes (pos + 1) (tl ref) (tl alt)"
      by (subst strip_prefixes.simps) (simp add: can_strip_prefix_def)
    with 1 True show ?thesis by (simp add: can_strip_prefix_def)
  next
    case False
    with 1 show ?thesis by (simp add: strip_prefixes_stuck)
  qed
qed

lemma last_tl_long: "length xs > 1 \<Longrightarrow> last (tl xs) = last xs"
  by (cases xs) auto

text \<open>
  Stripping leading characters never re-enables the suffix loop: both strings keep at
  least one character, so their last characters stay what they were.
\<close>

lemma strip_prefixes_keeps_suffix_stuck:
  "strip_prefixes pos ref alt = (p, r, a) \<Longrightarrow> \<not> can_strip_suffix ref alt
     \<Longrightarrow> \<not> can_strip_suffix r a"
proof (induction pos ref alt rule: strip_prefixes.induct)
  case (1 pos ref alt)
  show ?case
  proof (cases "can_strip_prefix ref alt")
    case True
    then have eq: "strip_prefixes pos ref alt = strip_prefixes (pos + 1) (tl ref) (tl alt)"
      by (subst strip_prefixes.simps) (simp add: can_strip_prefix_def)
    from True have len: "length ref > 1" "length alt > 1"
      by (simp_all add: can_strip_prefix_def)
    have "\<not> can_strip_suffix (tl ref) (tl alt)"
      using "1.prems"(2) len by (auto simp: can_strip_suffix_def last_tl_long)
    with 1 True eq show ?thesis by (simp add: can_strip_prefix_def)
  next
    case False
    with 1 show ?thesis by (simp add: strip_prefixes_stuck)
  qed
qed

lemma minimize_allele_minimal:
  "is_minimal (REF (minimize_allele chrom pos ref alt)) (ALT (minimize_allele chrom pos ref alt))"
proof -
  obtain r1 a1 where s: "strip_suffixes ref alt = (r1, a1)"
    by (cases "strip_suffixes ref alt")
  obtain p2 r2 a2 where p: "strip_prefixes pos r1 a1 = (p2, r2, a2)"
    by (cases "strip_prefixes pos r1 a1")
  from s have "\<not> can_strip_suffix r1 a1" by (rule strip_suffixes_result)
  with p have "\<not> can_strip_suffix r2 a2" by (rule strip_prefixes_keeps_suffix_stuck)
  moreover from p have "\<not> can_strip_prefix r2 a2" by (rule strip_prefixes_result)
  ultimately show ?thesis by (simp add: minimize_allele_def s p is_minimal_def)
qed

lemma minimize_allele_fix:
  "is_minimal ref alt \<Longrightarrow>
     minimize_allele chrom pos ref alt = \<lparr>CHROM = chrom, POS = pos, REF = ref, ALT = alt\<rparr>"
  by (simp add: minimize_allele_def is_minimal_def strip_suffixes_stuck strip_prefixes_stuck)

text \<open>
  Claim C1, as the code behaves. For the record with CHROM=1, POS=100, REF=ATG and
  ALT=ATGTG the suffix loop runs first and removes the shared trailing G and T, which
  leaves REF=A, ALT=ATG; REF then has length 1, so the prefix loop makes no step and the
  position stays 100. DECOMPOSED\_ALLELES is the single allele REF=A, ALT=ATG, pos=100.
\<close>

theorem C1_minimize_ATG_ATGTG:
  "map_sum id (\<lambda>r. fst (DECOMPOSED_ALLELES r))
     (VcfRecord_init (str_join [CHR 0x09]
        [''1'', ''100'', ''.'', ''ATG'', ''ATGTG'', ''.'', ''.'', ''.'']))
   = Inr [\<lparr>CHROM = ''1'', POS = 100, REF = ''A'', ALT = ''ATG''\<rparr>]"
  by code_simp

text \<open>
  Claim C1 as stated does not hold: for that record the code does not produce REF=G,
  ALT=GTG, pos=102.
\<close>

theorem C1_counterexample:
  "map_sum id (\<lambda>r. fst (DECOMPOSED_ALLELES r))
     (VcfRecord_init (str_join [CHR 0x09]
        [''1'', ''100'', ''.'', ''ATG'', ''ATGTG'', ''.'', ''.'', ''.'']))
   \<noteq> Inr [\<lparr>CHROM = ''1'', POS = 102, REF = ''G'', ALT = ''GTG''\<rparr>]"
  by code_simp

text \<open>
  Claim C9: allele normalization is idempotent. A pair on which neither loop can make a
  step is returned unchanged, with the same chrom and pos; and the result of minimizing
  any pair is such a pair, so minimizing it again returns the same chrom, pos, ref and alt.
\<close>

theorem C9_minimize_idempotent:
  "(is_minimal ref alt \<longrightarrow>
      minimize_allele chrom pos ref alt = \<lparr>CHROM = chrom, POS = pos, REF = ref, ALT = alt\<rparr>)
   \<and> (let m = minimize_allele chrom pos ref alt
      in is_minimal (REF m) (ALT m) \<and> minimize_allele (CHROM m) (POS m) (REF m) (ALT m) = m)"
proof -
  let ?m = "minimize_allele chrom pos ref alt"
  have "is_minimal (REF ?m) (ALT ?m)" by (rule minimize_allele_minimal)
  then have "minimize_allele (CHROM ?m) (POS ?m) (REF ?m) (ALT ?m) = ?m"
    by (simp add: minimize_allele_fix)
  then show ?thesis
    using minimize_allele_minimal[of chrom pos ref alt]
    by (simp add: minimize_allele_fix Let_def)
qed

text \<open>The pair REF=A, ALT=ATG at position 100 is minimal and is returned as it is.\<close>

theorem C9_witness:
  "is_minimal ''A'' ''ATG'' \<and>
   minimize_allele ''1'' 100 ''A'' ''ATG'' = \<lparr>CHROM = ''1'', POS = 100, REF = ''A'', ALT = ''ATG''\<rparr>"
  using C9_minimize_idempotent[of "''A''" "''ATG''" "''1''" 100]
  by (simp add: is_minimal_def can_strip_suffix_def can_strip_prefix_def)

section \<open>Rendering an unmutated record\<close>

lemma VcfRecord_init_cols:
  "VcfRecord_init line = Inr r \<Longrightarrow> cols r = str_split_max CHR 0x09 9 line"
  by (auto simp: VcfRecord_init_def Let_def split: if_splits sum.splits)

lemma VcfRecord_init_str: "VcfRecord_init line = Inr r \<Longrightarrow> VcfRecord_str r = line"
  by (simp add: VcfRecord_init_cols VcfRecord_str_def str_join_split_max)

lemma ALLELES_cols [simp]: "cols (snd (ALLELES r)) = cols r"
  by (simp add: ALLELES_def Let_def split: option.splits)

lemma DECOMPOSED_ALLELES_cols [simp]: "cols (snd (DECOMPOSED_ALLELES r)) = cols r"
  by (simp add: DECOMPOSED_ALLELES_def ALLELES_def Let_def split: option.splits prod.splits)

lemma INFO_FIELDS_cols [simp]: "cols (snd (INFO_FIELDS r)) = cols r"
  by (simp add: INFO_FIELDS_def Let_def split: option.splits)

lemma SPAN_cols [simp]: "cols (snd (SPAN r)) = cols r"
  by (simp add: SPAN_def INFO_FIELDS_def Let_def split: option.splits prod.splits sum.splits)

lemma vep_to_alt_cols [simp]: "cols (snd (vep_to_alt csq r)) = cols r"
  by (simp add: vep_to_alt_def ALLELES_def Let_def split: option.splits prod.splits sum.splits)

text \<open>\<open>CALLS\<close> changes \<open>cols\<close>, but not what the columns join to.\<close>

lemma CALLS_str [simp]: "VcfRecord_str (snd (CALLS h r)) = VcfRecord_str r"
  by (auto simp: CALLS_def VcfRecord_str_def Let_def str_join_resplit_last
      split: option.splits sum.splits)

lemma get_sample_call_str [simp]:
  "VcfRecord_str (snd (get_sample_call h s r)) = VcfRecord_str r"
proof -
  have "VcfRecord_str (snd (get_sample_call h s r)) = VcfRecord_str (snd (CALLS h r))
        \<or> snd (get_sample_call h s r) = r"
    by (auto simp: get_sample_call_def Let_def VcfRecord_str_def
        split: option.splits sum.splits prod.splits)
  then show ?thesis by auto
qed

lemma sample_calls_loop_str [simp]:
  "VcfRecord_str (snd (sample_calls_loop h ss r)) = VcfRecord_str r"
proof (induction ss arbitrary: r)
  case Nil
  show ?case by simp
next
  case (Cons s ss)
  obtain res r1 where g: "get_sample_call h s r = (res, r1)"
    by (cases "get_sample_call h s r")
  have r1: "VcfRecord_str r1 = VcfRecord_str r"
    using get_sample_call_str[of h s r] g by simp
  show ?case
  proof (cases res)
    case (Inl e)
    with g r1 show ?thesis by simp
  next
    case (Inr d)
    obtain res2 r2 where l: "sample_calls_loop h ss r1 = (res2, r2)"
      by (cases "sample_calls_loop h ss r1")
    have "VcfRecord_str r2 = VcfRecord_str r1" using Cons.IH[of r1] l by simp
    with g Inr l r1 show ?thesis by (cases res2) simp_all
  qed
qed

lemma VcfRecord_str_got_gts [simp]: "VcfRecord_str (r\<lparr>got_gts := b\<rparr>) = VcfRecord_str r"
  by (simp add: VcfRecord_str_def)

lemma sample_calls_str [simp]: "VcfRecord_str (snd (sample_calls h r)) = VcfRecord_str r"
proof (cases "got_gts r")
  case True
  then show ?thesis by (simp add: sample_calls_def)
next
  case False
  show ?thesis
  proof (cases "samples h")
    case None
    with False show ?thesis by (simp add: sample_calls_def)
  next
    case (Some ss)
    obtain res r2 where l: "sample_calls_loop h ss (r\<lparr>got_gts := True\<rparr>) = (res, r2)"
      by (cases "sample_calls_loop h ss (r\<lparr>got_gts := True\<rparr>)")
    have "VcfRecord_str r2 = VcfRecord_str r"
      using sample_calls_loop_str[of h ss "r\<lparr>got_gts := True\<rparr>"] l by simp
    with False Some l show ?thesis by (cases res) (simp_all add: sample_calls_def)
  qed
qed

lemma access_str: "VcfRecord_str (access h r a) = VcfRecord_str r"
  by (cases a) (simp_all add: VcfRecord_str_def[of "snd (ALLELES r)"]
      VcfRecord_str_def[of "snd (DECOMPOSED_ALLELES r)"]
      VcfRecord_str_def[of "snd (INFO_FIELDS r)"]
      VcfRecord_str_def[of "snd (SPAN r)"] VcfRecord_str_def[of "snd (vep_to_alt _ r)"]
      VcfRecord_str_def[of r])

lemma foldl_access_str: "VcfRecord_str (foldl (access h) r as) = VcfRecord_str r"
  by (induction as arbitrary: r) (simp_all add: access_str)

text \<open>
  Claim C8: for every record constructed from an input line, its string form is the
  line itself, exactly; it still is after \<open>CALLS\<close> has been read, and after any sequence
  of lazy accessors has run (whether they returned or raised), as long as no mutation
  method was called.
\<close>

theorem C8_str_reproduces_line:
  "VcfRecord_init line = Inr r \<Longrightarrow>
     VcfRecord_str r = line \<and> VcfRecord_str (snd (CALLS h r)) = line
     \<and> VcfRecord_str (foldl (access h) r as) = line"
  by (simp add: VcfRecord_init_str foldl_access_str)

text \<open>
  A line with two samples under a header that names them: after \<open>CALLS\<close>,
  \<open>sample_calls()\<close> and \<open>SPAN\<close> the record still renders as the line.
\<close>

theorem C8_witness:
  "(case VcfRecord_init (str_join [CHR 0x09]
           [''1'', ''100'', ''rs1'', ''A'', ''T'', ''50'', ''PASS'', ''DP=1'', ''GT'', ''0/1'', ''1/1'']) of
      Inl e \<Rightarrow> False
    | Inr r \<Rightarrow>
        VcfRecord_str (foldl (access (header_of
            [''#CHROM'', ''POS'', ''ID'', ''REF'', ''ALT'', ''QUAL'', ''FILTER'', ''INFO'',
             ''FORMAT'', ''S1'', ''S2''] [])) r [Get_CALLS, Call_sample_calls, Get_SPAN])
        = str_join [CHR 0x09]
           [''1'', ''100'', ''rs1'', ''A'', ''T'', ''50'', ''PASS'', ''DP=1'', ''GT'', ''0/1'', ''1/1''])"
proof -
  let ?L = "str_join [CHR 0x09]
           [''1'', ''100'', ''rs1'', ''A'', ''T'', ''50'', ''PASS'', ''DP=1'', ''GT'', ''0/1'', ''1/1'']"
  have "\<not> isl (VcfRecord_init ?L)" by code_simp
  then obtain r where init: "VcfRecord_init ?L = Inr r"
    by (cases "VcfRecord_init ?L") auto
  from C8_str_reproduces_line[OF init] show ?thesis by (simp only: init sum.case)
qed

section \<open>SPAN and INFO mutation\<close>

lemma INFO_FIELDS_SPAN_cell [simp]: "SPAN_cell (snd (INFO_FIELDS r)) = SPAN_cell r"
  by (simp add: INFO_FIELDS_def Let_def split: option.splits)

lemma rewrite_info_string_SPAN_cell [simp]:
  "SPAN_cell (snd (rewrite_info_string r)) = SPAN_cell r"
  by (simp add: rewrite_info_string_def INFO_FIELDS_def Let_def split: option.splits prod.splits)

text \<open>No path of \<open>add_info_fields\<close> writes the SPAN cell.\<close>

lemma add_info_fields_SPAN_cell [simp]:
  "SPAN_cell (snd (add_info_fields h info app r)) = SPAN_cell r"
proof -
  obtain d r1 where i: "INFO_FIELDS r = (d, r1)" by (cases "INFO_FIELDS r")
  then have r1: "SPAN_cell r1 = SPAN_cell r" using INFO_FIELDS_SPAN_cell[of r] by simp
  obtain e d1 where l: "add_info_loop h app (sort_key fst info) d = (e, d1)"
    by (cases "add_info_loop h app (sort_key fst info) d")
  show ?thesis
    using i l r1 by (cases e) (simp_all add: add_info_fields_def)
qed

lemma SPAN_cached: "SPAN_cell r = Some n \<Longrightarrow> SPAN r = (Inr n, r)"
  by (simp add: SPAN_def)

lemma SPAN_fills_cell: "fst (SPAN r) = Inr n \<Longrightarrow> SPAN_cell (snd (SPAN r)) = Some n"
  by (auto simp: SPAN_def Let_def split: option.splits prod.splits sum.splits)

lemma SPAN_first:
  "SPAN_cell r = None \<Longrightarrow>
     fst (SPAN r) = (case dict_get (fst (INFO_FIELDS r)) ''END'' of
                       Some v \<Rightarrow> py_int_value v
                     | None \<Rightarrow> Inr (POS r + int (length (REF r)) - 1))"
  by (auto simp: SPAN_def INFO_FIELDS_def Let_def split: option.splits prod.splits sum.splits)

lemma VcfRecord_init_SPAN_cell: "VcfRecord_init line = Inr r \<Longrightarrow> SPAN_cell r = None"
  by (auto simp: VcfRecord_init_def Let_def split: if_splits sum.splits)

text \<open>
  Claim C10: on its first read, SPAN is \<open>int\<close> of the INFO field END when the record's
  INFO fields have that key (and the read raises what \<open>int\<close> raises when END is not an
  integer), and POS + len(REF) - 1 otherwise. Once a read has returned a value, the
  value is kept: after any call of \<open>add_info_fields\<close>, SPAN still returns it.
\<close>

theorem C10_SPAN_value_and_memo:
  "SPAN_cell r = None \<Longrightarrow>
     fst (SPAN r) = (case dict_get (fst (INFO_FIELDS r)) ''END'' of
                       Some v \<Rightarrow> py_int_value v
                     | None \<Rightarrow> Inr (POS r + int (length (REF r)) - 1))
     \<and> (fst (SPAN r) = Inr n \<longrightarrow>
          fst (SPAN (snd (add_info_fields h info app (snd (SPAN r))))) = Inr n)"
proof (intro conjI impI)
  assume "SPAN_cell r = None"
  then show "fst (SPAN r) = (case dict_get (fst (INFO_FIELDS r)) ''END'' of
                       Some v \<Rightarrow> py_int_value v
                     | None \<Rightarrow> Inr (POS r + int (length (REF r)) - 1))"
    by (rule SPAN_first)
next
  assume "fst (SPAN r) = Inr n"
  then have "SPAN_cell (snd (SPAN r)) = Some n" by (rule SPAN_fills_cell)
  then have "SPAN_cell (snd (add_info_fields h info app (snd (SPAN r)))) = Some n" by simp
  then show "fst (SPAN (snd (add_info_fields h info app (snd (SPAN r))))) = Inr n"
    by (simp add: SPAN_cached)
qed

text \<open>
  A record with INFO \<open>END=250\<close>: SPAN is 250, and stays 250 after END is replaced by 300.
\<close>

theorem C10_witness:
  "(case VcfRecord_init (str_join [CHR 0x09]
           [''1'', ''100'', ''.'', ''ACG'', ''A'', ''.'', ''.'', ''END=250'']) of
      Inl e \<Rightarrow> False
    | Inr r \<Rightarrow> SPAN_cell r = None \<and> fst (SPAN r) = Inr 250 \<and>
        fst (SPAN (snd (add_info_fields (header_of [] []) [(''END'', VStr ''300'')] False
               (snd (SPAN r))))) = Inr 250)"
proof -
  let ?L = "str_join [CHR 0x09] [''1'', ''100'', ''.'', ''ACG'', ''A'', ''.'', ''.'', ''END=250'']"
  have "\<not> isl (VcfRecord_init ?L)" by code_simp
  then obtain r where init: "VcfRecord_init ?L = Inr r"
    by (cases "VcfRecord_init ?L") auto
  have cell: "SPAN_cell r = None" using init by (rule VcfRecord_init_SPAN_cell)
  have "map_sum id (\<lambda>r. fst (SPAN r)) (VcfRecord_init ?L) = Inr (Inr 250)" by code_simp
  with init have span: "fst (SPAN r) = Inr 250" by simp
  from C10_SPAN_value_and_memo[OF cell, of 250 "header_of [] []" "[(''END'', VStr ''300'')]" False]
    span
  show ?thesis using init cell by simp
qed

text \<open>
  Claim C2, evaluated where the code breaks it. The record has the flag DB; after
  \<open>add_info_fields({'AC': '3'})\<close> the INFO dictionary holds DB as a flag and AC=3, but
  the rebuilt INFO column is \<open>DB;DB=True;AC=3\<close>: the flag is rendered bare and then once
  more with a value.
\<close>

theorem C2_flag_rendered_twice:
  "map_sum id (\<lambda>r. case add_info_fields (header_of [] []) [(''AC'', VStr ''3'')] False r of
                     (e, r1) \<Rightarrow> (e, INFO_FIELDS_cell r1, VcfRecord_str r1))
     (VcfRecord_init (str_join [CHR 0x09] [''1'', ''100'', ''.'', ''A'', ''T'', ''.'', ''.'', ''DB'']))
   = Inr (None, Some [(''DB'', VBool True), (''AC'', VStr ''3'')],
          str_join [CHR 0x09] [''1'', ''100'', ''.'', ''A'', ''T'', ''.'', ''.'', ''DB;DB=True;AC=3''])"
  by code_simp

section \<open>Parsed genotypes\<close>

lemma parse_gt_bad:
  "ints_of (gt_splitter v) = Inl e \<Longrightarrow>
     parse_gt (Some v) =
       (if ''.'' \<in> set (gt_splitter v)
        then Inr (replicate (length (filter (\<lambda>x. x = ''.'') (gt_splitter v))) None)
        else Inl NameError)"
  by (auto simp: parse_gt_def Let_def filter_empty_conv map_replicate_const)

text \<open>
  Claim C3, as the code behaves. For a GT value with a token that \<open>int\<close> rejects: when
  at least one token is \<open>.\<close>, retrieval does not raise and yields a tuple with one absent
  marker per token equal to \<open>.\<close>; only a value without any \<open>.\<close> token is rejected.
\<close>

theorem C3_bad_token_gt:
  "ints_of (gt_splitter v) = Inl e \<Longrightarrow>
     (if ''.'' \<in> set (gt_splitter v)
      then get_parsed_gt_fields_GT [Some v]
             = Inr [replicate (length (filter (\<lambda>x. x = ''.'') (gt_splitter v))) None]
      else isl (get_parsed_gt_fields_GT [Some v]))"
  by (simp add: parse_gt_bad)

text \<open>The mixed value \<open>0/.\<close>: its token \<open>.\<close> is not an integer, and the result is \<open>(None,)\<close>.\<close>

theorem C3_witness:
  "ints_of (gt_splitter ''0/.'') = Inl ValueError
   \<and> get_parsed_gt_fields_GT [Some ''0/.''] = Inr [[None]]"
proof -
  have h: "ints_of (gt_splitter ''0/.'') = Inl ValueError" by code_simp
  have m: "''.'' \<in> set (gt_splitter ''0/.'')" by code_simp
  have l: "length (filter (\<lambda>x. x = ''.'') (gt_splitter ''0/.'')) = 1" by code_simp
  from C3_bad_token_gt[OF h] m l show ?thesis using h by simp
qed

text \<open>
  Claim C3 as stated does not hold: the mixed value \<open>0/.\<close> is no error at all, and for
  \<open>0/x\<close> the exception that reaches the caller is a NameError, not a ParseError.
\<close>

theorem C3_counterexample:
  "get_parsed_gt_fields_GT [Some ''0/.''] = Inr [[None]]
   \<and> get_parsed_gt_fields_GT [Some ''0/x''] = Inl NameError"
  by code_simp

section \<open>The phasing comparator\<close>

text \<open>
  Claim C4, evaluated where the code breaks it. Two records of a sites-only file (eight
  columns, no FORMAT): \<open>in_cis_with\<close> raises a TypeError instead of returning \<open>False\<close>.
\<close>

theorem C4_in_cis_with_raises_without_FORMAT:
  "(case (VcfRecord_init (str_join [CHR 0x09] [''1'', ''100'', ''.'', ''A'', ''G'', ''.'', ''.'', ''DP=1'']),
          VcfRecord_init (str_join [CHR 0x09] [''1'', ''105'', ''.'', ''C'', ''T'', ''.'', ''.'', ''DP=2''])) of
      (Inr r1, Inr r2) \<Rightarrow>
        Some (in_cis_with (header_of
                [''#CHROM'', ''POS'', ''ID'', ''REF'', ''ALT'', ''QUAL'', ''FILTER'', ''INFO''] [])
                r1 ''S1'' 1 r2 1)
    | _ \<Rightarrow> None) = Some (Inl TypeError)"
  by code_simp

section \<open>The type registry and header construction\<close>

lemma isdigit_char_plain:
  "is_digit c \<or> is_superscript_digit c \<Longrightarrow>
     \<not> is_int_space c \<and> c \<noteq> CHR ''-'' \<and> c \<noteq> CHR ''+'' \<and> c \<noteq> CHR ''_''"
  by (auto simp: is_digit_def is_superscript_digit_def is_int_space_def Let_def)

lemma str_isdigit_chars:
  "str_isdigit s \<Longrightarrow> c \<in> set s \<Longrightarrow> is_digit c \<or> is_superscript_digit c"
  by (simp add: str_isdigit_def list_all_iff)

lemma str_strip_isdigit:
  assumes d: "str_isdigit s"
  shows "str_strip s = s"
proof -
  from d obtain c cs where s: "s = c # cs" by (cases s) (auto simp: str_isdigit_def)
  have h: "\<not> is_int_space (hd s)"
    using str_isdigit_chars[OF d, of "hd s"] s isdigit_char_plain by auto
  have ne: "rev s \<noteq> []" using s by simp
  have "last s \<in> set s" using s by simp
  then have l: "\<not> is_int_space (hd (rev s))"
    using str_isdigit_chars[OF d, of "last s"] ne isdigit_char_plain by (simp add: hd_rev)
  have 1: "dropWhile is_int_space s = s" using h s by simp
  have 2: "dropWhile is_int_space (rev s) = rev s"
    using l ne by (cases "rev s") auto
  show ?thesis by (simp add: str_strip_def 1 2)
qed

lemma py_int_digits_isdigit:
  assumes d: "str_isdigit s"
  shows "py_int_digits s =
           (if list_all is_digit s \<and> length s \<le> int_max_str_digits
            then Some (digits_value s) else None)"
proof -
  have "CHR ''_'' \<notin> set s"
    using str_isdigit_chars[OF d] isdigit_char_plain by blast
  then have "str_split CHR ''_'' s = [s]" by (rule str_split_no_sep)
  with d show ?thesis by (auto simp: py_int_digits_def str_isdigit_def)
qed

text \<open>
  On a string that \<open>isdigit\<close> accepts, \<open>int\<close> succeeds exactly when every character is a
  decimal digit and there are at most 4300 of them.
\<close>

lemma py_int_isdigit:
  assumes d: "str_isdigit s"
  shows "py_int s =
           (if list_all is_digit s \<and> length s \<le> int_max_str_digits
            then Inr (int (digits_value s)) else Inl ValueError)"
proof -
  from d obtain c cs where s: "s = c # cs" by (cases s) (auto simp: str_isdigit_def)
  have c: "c \<noteq> CHR ''-''" "c \<noteq> CHR ''+''"
    using str_isdigit_chars[OF d, of c] s isdigit_char_plain by auto
  have st: "str_strip s = s" by (rule str_strip_isdigit[OF d])
  have "py_int s = (case py_int_digits s of None \<Rightarrow> Inl ValueError | Some n \<Rightarrow> Inr (int n))"
    unfolding py_int_def st using c by (simp add: s split: option.splits)
  then show ?thesis by (simp add: py_int_digits_isdigit[OF d])
qed

lemma split_of_number_eq:
  "split_of_number num =
     (if str_isdigit num
      then (if list_all is_digit num \<and> length num \<le> int_max_str_digits
            then Inr (1 < digits_value num) else Inl ValueError)
      else Inr True)"
  by (simp add: split_of_number_def py_int_isdigit)

text \<open>
  Claim C5, as the code behaves. For a declared INFO or FORMAT field of a recognised
  type, what the registry stores is decided by Number alone; the declared type decides
  the class only, and a Flag gets no other treatment. When Number is not a digit string
  for \<open>isdigit\<close> (the codes A, G, R and \<open>.\<close> among them), the field is multi-valued. When
  Number is a string of at most 4300 decimal digits, the field is multi-valued exactly
  when its value exceeds 1, so that Number 1 and Number 0 are single-valued. When
  \<open>isdigit\<close> accepts Number and \<open>int\<close> does not (a superscript digit, or more than 4300
  digits), the registration raises the ValueError of \<open>int\<close> and stores nothing.
\<close>

theorem C5_multi_valued_by_number:
  "field_type = ''INFO'' \<or> field_type = ''FORMAT'' \<Longrightarrow>
   dict_get (metadata h) field_type = Some (Structured m) \<Longrightarrow>
   dict_get m field = Some (f # fs) \<Longrightarrow>
   dict_get f ''Type'' = Some ty \<Longrightarrow>
   dict_get f ''Number'' = Some num \<Longrightarrow>
   class_of_type ty = Inr ctype \<Longrightarrow>
   map_sum id (\<lambda>h1. dict_get (registry h1 field_type) field)
     (set_field_translation h field_type field)
   = (if str_isdigit num
      then (if list_all is_digit num \<and> length num \<le> int_max_str_digits
            then Inr (Some (ctype, 1 < digits_value num))
            else Inl ValueError)
      else Inr (Some (ctype, True)))"
  by (auto simp: set_field_translation_def split_of_number_eq registry_def)

text \<open>
  The INFO field DP, declared with Number=1 and Type=Integer, is single-valued; the
  INFO field SQ, declared with the superscript two as its Number, cannot be registered.
\<close>

theorem C5_witness:
  "map_sum id (\<lambda>h1. dict_get (registry h1 ''INFO'') ''DP'')
     (set_field_translation
        (header_of [] [(''INFO'', Structured
           [(''DP'', [[(''Number'', ''1''), (''Type'', ''Integer'')]]),
            (''SQ'', [[(''Number'', [CHR 0xB2]), (''Type'', ''Integer'')]])])])
        ''INFO'' ''DP'')
   = Inr (Some (Some Class_int, False))
   \<and> map_sum id (\<lambda>h1. dict_get (registry h1 ''INFO'') ''SQ'')
     (set_field_translation
        (header_of [] [(''INFO'', Structured
           [(''DP'', [[(''Number'', ''1''), (''Type'', ''Integer'')]]),
            (''SQ'', [[(''Number'', [CHR 0xB2]), (''Type'', ''Integer'')]])])])
        ''INFO'' ''SQ'')
   = Inl ValueError"
proof -
  let ?f = "[(''Number'', ''1''), (''Type'', ''Integer'')]"
  let ?g = "[(''Number'', [CHR 0xB2]), (''Type'', ''Integer'')]"
  let ?m = "[(''DP'', [?f]), (''SQ'', [?g])]"
  let ?h = "header_of [] [(''INFO'', Structured ?m)]"
  have 1: "dict_get (metadata ?h) ''INFO'' = Some (Structured ?m)" by code_simp
  have 2: "dict_get ?m ''DP'' = Some (?f # [])" by code_simp
  have 3: "dict_get ?f ''Type'' = Some ''Integer''" by code_simp
  have 4: "dict_get ?f ''Number'' = Some ''1''" by code_simp
  have 5: "class_of_type ''Integer'' = Inr (Some Class_int)" by code_simp
  have 6: "str_isdigit ''1''" "list_all is_digit ''1''" "length ''1'' \<le> int_max_str_digits"
    "\<not> 1 < digits_value ''1''" by code_simp+
  have 7: "dict_get ?m ''SQ'' = Some (?g # [])" by code_simp
  have 8: "dict_get ?g ''Type'' = Some ''Integer''" by code_simp
  have 9: "dict_get ?g ''Number'' = Some [CHR 0xB2]" by code_simp
  have 10: "str_isdigit [CHR 0xB2]" "\<not> list_all is_digit [CHR 0xB2]" by code_simp+
  from C5_multi_valued_by_number[OF _ 1 2 3 4 5] 6
    C5_multi_valued_by_number[OF _ 1 7 8 9 5] 10
  show ?thesis by simp
qed

text \<open>
  Claim C5 as stated does not hold. A Flag declared with Number=A is marked
  multi-valued, and an Integer field declared with Number=0 is marked single-valued;
  the claim's wording says the opposite of both.
\<close>

theorem C5_counterexample:
  "(case set_field_translation
           (header_of [] [(''INFO'', Structured
              [(''X'', [[(''Number'', ''A''), (''Type'', ''Flag'')]]),
               (''Y'', [[(''Number'', ''0''), (''Type'', ''Integer'')]])])])
           ''INFO'' ''X'' of
      Inl e \<Rightarrow> None | Inr h1 \<Rightarrow> dict_get (info_field_translater h1) ''X'') = Some (None, True)
   \<and> \<not> spec_multi_valued ''Flag'' ''A''
   \<and> (case set_field_translation
           (header_of [] [(''INFO'', Structured
              [(''X'', [[(''Number'', ''A''), (''Type'', ''Flag'')]]),
               (''Y'', [[(''Number'', ''0''), (''Type'', ''Integer'')]])])])
           ''INFO'' ''Y'' of
      Inl e \<Rightarrow> None | Inr h1 \<Rightarrow> dict_get (info_field_translater h1) ''Y'')
       = Some (Some Class_int, False)
   \<and> spec_multi_valued ''Integer'' ''0''"
  by code_simp

text \<open>
  Claim C7, as the code behaves. When the column names pass their checks and the first
  metaheader line does not declare the file format, header construction fails with a
  ParseError, before any other metaheader line is looked at.
\<close>

theorem C7_missing_fileformat_is_ParseError:
  "check_cols ch 0 required_cols = None \<Longrightarrow>
   \<not> (length ch > 8 \<and> ch ! 8 \<noteq> ''FORMAT'') \<Longrightarrow>
   \<not> declares_fileformat first \<Longrightarrow>
   VcfHeader_init parse_header_lines (first # others) ch = Inl ParseError"
  by (auto simp: VcfHeader_init_def parse_metadata_def declares_fileformat_def list_get_def
      Let_def split: option.splits prod.splits)

text \<open>A header whose fileformat line comes second.\<close>

theorem C7_witness:
  "check_cols [''#CHROM'', ''POS'', ''ID'', ''REF'', ''ALT'', ''QUAL'', ''FILTER'', ''INFO'']
      0 required_cols = None
   \<and> \<not> declares_fileformat ''##source=caller''
   \<and> VcfHeader_init (\<lambda>ls. Inr []) [''##source=caller'', ''##fileformat=VCFv4.2'']
        [''#CHROM'', ''POS'', ''ID'', ''REF'', ''ALT'', ''QUAL'', ''FILTER'', ''INFO'']
       = Inl ParseError"
proof -
  let ?ch = "[''#CHROM'', ''POS'', ''ID'', ''REF'', ''ALT'', ''QUAL'', ''FILTER'', ''INFO'']"
  have 1: "check_cols ?ch 0 required_cols = None" by code_simp
  have 2: "\<not> (length ?ch > 8 \<and> ?ch ! 8 \<noteq> ''FORMAT'')" by simp
  have 3: "\<not> declares_fileformat ''##source=caller''" by code_simp
  from C7_missing_fileformat_is_ParseError[OF 1 2 3] 1 3 show ?thesis by simp
qed

text \<open>
  Claim C7 as stated does not hold: for that header the error is not a HeaderError.
\<close>

theorem C7_counterexample:
  "VcfHeader_init (\<lambda>ls. Inr []) [''##source=caller'', ''##fileformat=VCFv4.2'']
        [''#CHROM'', ''POS'', ''ID'', ''REF'', ''ALT'', ''QUAL'', ''FILTER'', ''INFO'']
     \<noteq> Inl HeaderError"
  by code_simp

section \<open>Resolving an annotation's allele\<close>

text \<open>
  Claim C6, as the code behaves. For the record with REF=A and ALT=A,AT, an annotation
  without ALLELE\_NUM whose Allele is T resolves to alt\_index 2, and the allele cache
  is rebuilt with every key left-trimmed by one character: AT becomes T, and the key A,
  which the trimming would empty, becomes \<open>-\<close>.
\<close>

theorem C6_csq_resolution_A_AT:
  "map_sum id
     (\<lambda>r. case csq_alt_index [(''Allele'', ''T''), (''Consequence'', ''frameshift_variant'')] r of
             (res, r1) \<Rightarrow> (res, vep_allele r1))
     (VcfRecord_init (str_join [CHR 0x09]
        [''1'', ''100'', ''.'', ''A'', ''A,AT'', ''.'', ''.'', ''CSQ=T|frameshift_variant'']))
   = Inr (Inr 2, [(''-'', 1), (''T'', 2)])"
  by code_simp

text \<open>
  Claim C6 as stated does not hold in one detail: the emptied key is not the
  missing-value marker \<open>.\<close>; the rebuilt cache has no such key, and \<open>-\<close> is the key of
  allele 1.
\<close>

theorem C6_counterexample:
  "map_sum id
     (\<lambda>r. case csq_alt_index [(''Allele'', ''T''), (''Consequence'', ''frameshift_variant'')] r of
             (res, r1) \<Rightarrow> (dict_get (vep_allele r1) missing_value_marker,
                           dict_get (vep_allele r1) ''-''))
     (VcfRecord_init (str_join [CHR 0x09]
        [''1'', ''100'', ''.'', ''A'', ''A,AT'', ''.'', ''.'', ''CSQ=T|frameshift_variant'']))
   = Inr (None, Some 1)"
  by code_simp

end
